theory Spec2Isabelle
  imports Complex_Main
begin

section \<open>The voice client of script.js\<close>

text \<open>
  The part of \<^verbatim>\<open>src/script.js\<close> that consumes the voice event stream, as a
  shallow embedding: the module-level variables are the fields of one record, every
  function takes the record and returns it updated, and what the code asks of its
  surroundings (HTTP requests, EventSource objects, the console, the host's
  \<^verbatim>\<open>calculate()\<close>) is appended to a trace of effects.

  Strings are byte strings (UTF-8). The regular expressions of the source work on
  UTF-16 code units; the two agree here because every character class of the source
  is a set of ASCII characters, and every byte of a non-ASCII character lies outside
  them.
\<close>

subsection \<open>Characters and the two sanitizers\<close>

definition isDigit :: "char \<Rightarrow> bool" where
  \<comment> \<open>the range \<^verbatim>\<open>0-9\<close> of a character class, and \<^verbatim>\<open>\d\<close>\<close>
  "isDigit c = (c \<in> set ''0123456789'')"

definition voiceChar :: "char \<Rightarrow> bool" where
  \<comment> \<open>a character that \<^verbatim>\<open>[^0-9+\-*/().]\<close> does not match\<close>
  "voiceChar c = (isDigit c \<or> c = CHR ''+'' \<or> c = CHR ''-'' \<or> c = CHR ''*'' \<or> c = CHR ''/''
      \<or> c = CHR ''('' \<or> c = CHR '')'' \<or> c = CHR ''.'')"

fun sanitizeVoice :: "string \<Rightarrow> string" where
  \<comment> \<open>\<^verbatim>\<open>expression.replace(/[^0-9+\-*/().]/g, '')\<close>\<close>
  "sanitizeVoice [] = []"
| "sanitizeVoice (c # cs) = (if voiceChar c then c # sanitizeVoice cs else sanitizeVoice cs)"

subsection \<open>The state\<close>

text \<open>
  \<^verbatim>\<open>voiceUI\<close>: its two fields, and the text of the status element of the page,
  which \<^verbatim>\<open>set\<close> writes unless the level is \<^verbatim>\<open>debug\<close>. The CSS classes and
  the \<^verbatim>\<open>aria-pressed\<close> attribute are functions of \<open>ui_state\<close> and are left out.
\<close>

record voice_ui =
  ui_state :: string
  ui_message :: string
  ui_text :: string

definition voiceUI_set :: "string \<Rightarrow> string \<Rightarrow> string \<Rightarrow> voice_ui \<Rightarrow> voice_ui" where
  "voiceUI_set msg st level ui =
     ui\<lparr>ui_state := st, ui_message := msg,
        ui_text := (if level \<noteq> ''debug'' then msg else ui_text ui)\<rparr>"

text \<open>The source writes the ellipsis U+2026 in three messages; here it is its UTF-8 bytes.\<close>

definition ellipsis :: string where
  "ellipsis = [char_of (226::nat), char_of (128::nat), char_of (166::nat)]"

definition msgListening :: string where
  "msgListening = ''Listening'' @ ellipsis"

datatype event_source = EventSource

datatype timer = Timer

datatype effect =
    PostStart
  | PostStop
  | OpenStream
  | CloseStream
  | ConsoleError string
  | ConsoleWarn string
  | Calculate string

text \<open>
  The variables of the module and the fields of \<^verbatim>\<open>voiceControl\<close>. An
  \<^verbatim>\<open>async\<close> function runs up to its \<^verbatim>\<open>await fetch(...)\<close>, and the rest of
  it runs when the request settles; the requests in flight are part of the state:
  \<open>startFetches\<close> counts those of \<^verbatim>\<open>start()\<close>, \<open>reconnectFetches\<close> those of
  the reconnect timer's callback, \<open>stopFetches\<close> holds the \<^verbatim>\<open>silent\<close> flag of
  each \<^verbatim>\<open>stop()\<close> that waits.
\<close>

record client =
  currentExpression :: string
  shouldResetOnNextInput :: bool
  lastVoiceExpression :: string
  lastVoiceTimestamp :: int
  voiceUI :: voice_ui
  active :: bool
  eventSource :: "event_source option"
  reconnectTimer :: "timer option"
  reconnectAttempts :: nat
  startFetches :: nat
  reconnectFetches :: nat
  stopFetches :: "bool list"
  effects :: "effect list"

definition emit :: "effect \<Rightarrow> client \<Rightarrow> client" where
  "emit e s = s\<lparr>effects := effects s @ [e]\<rparr>"

definition setUI :: "string \<Rightarrow> string \<Rightarrow> client \<Rightarrow> client" where
  \<comment> \<open>\<^verbatim>\<open>voiceUI.set(message, state)\<close>, the level defaulting to \<^verbatim>\<open>info\<close>\<close>
  "setUI msg st s = s\<lparr>voiceUI := voiceUI_set msg st ''info'' (voiceUI s)\<rparr>"

text \<open>The values the module starts with.\<close>

definition initial :: client where
  "initial = \<lparr>currentExpression = [], shouldResetOnNextInput = False,
     lastVoiceExpression = [], lastVoiceTimestamp = 0,
     voiceUI = \<lparr>ui_state = ''idle'', ui_message = ''Mic off'', ui_text = ''Mic off''\<rparr>,
     active = False, eventSource = None, reconnectTimer = None, reconnectAttempts = 0,
     startFetches = 0, reconnectFetches = 0, stopFetches = [], effects = []\<rparr>"

subsection \<open>injectVoiceExpression\<close>

text \<open>
  \<^verbatim>\<open>expression\<close> is \<open>None\<close> for \<^verbatim>\<open>null\<close> and for an absent field. The
  confidence is the exact value of the double that \<^verbatim>\<open>JSON.parse\<close> produced; for
  a double \<open>d\<close>, \<^verbatim>\<open>d < 0.4\<close> holds exactly when \<open>d < 2/5\<close>, since the literal
  \<^verbatim>\<open>0.4\<close> is the double next above \<open>2/5\<close>. \<open>now\<close> is what \<^verbatim>\<open>Date.now()\<close>
  returns. \<^verbatim>\<open>updateDisplay()\<close> and the \<^verbatim>\<open>voice-input\<close> class only touch the
  document.
\<close>

definition injectVoiceExpression :: "string option \<Rightarrow> rat \<Rightarrow> int \<Rightarrow> client \<Rightarrow> client" where
  "injectVoiceExpression expression confidence now s =
     (case expression of
        None \<Rightarrow> s
      | Some e \<Rightarrow>
          if e = [] then s
          else
            let sanitized = sanitizeVoice e in
            if sanitized = [] then s
            else if sanitized = lastVoiceExpression s \<and> now - lastVoiceTimestamp s < 300 then s
            else
              let s1 = (if shouldResetOnNextInput s
                        then s\<lparr>currentExpression := [], shouldResetOnNextInput := False\<rparr>
                        else s);
                  s2 = s1\<lparr>currentExpression := sanitized\<rparr>;
                  s3 = s2\<lparr>lastVoiceExpression := sanitized, lastVoiceTimestamp := now\<rparr>
              in if confidence < 2 / 5
                 then setUI ''Low confidence, please repeat'' ''listening'' s3
                 else s3)"

subsection \<open>The host calculator\<close>

text \<open>
  \<^verbatim>\<open>clearAll()\<close> and \<^verbatim>\<open>backspace()\<close> as they act on the two variables of the
  host; the host's expression is made of ASCII characters, so that its last byte is its
  last character. \<^verbatim>\<open>calculate()\<close> evaluates the expression with the engine's own arithmetic
  and writes the result back from a timer half a second later; of it the model keeps
  the guard and the fact that it was called on the current expression.
\<close>

definition clearAll :: "client \<Rightarrow> client" where
  "clearAll s = s\<lparr>currentExpression := [], shouldResetOnNextInput := False\<rparr>"

definition backspace :: "client \<Rightarrow> client" where
  "backspace s =
     (if currentExpression s = [] then s
      else s\<lparr>currentExpression := butlast (currentExpression s)\<rparr>)"

definition calculate :: "client \<Rightarrow> client" where
  "calculate s =
     (if currentExpression s = [] then s else emit (Calculate (currentExpression s)) s)"

subsection \<open>voiceControl\<close>

definition stop_begin :: "bool \<Rightarrow> client \<Rightarrow> client" where
  \<comment> \<open>\<^verbatim>\<open>stop({ silent })\<close> up to its \<^verbatim>\<open>await\<close>\<close>
  "stop_begin silent s =
     (let s1 = (if reconnectTimer s \<noteq> None then s\<lparr>reconnectTimer := None\<rparr> else s);
          s2 = (if eventSource s1 \<noteq> None
                then (emit CloseStream s1)\<lparr>eventSource := None\<rparr>
                else s1);
          s3 = emit PostStop s2
      in s3\<lparr>stopFetches := stopFetches s3 @ [silent]\<rparr>)"

definition stop_finish :: "bool \<Rightarrow> bool \<Rightarrow> client \<Rightarrow> client" where
  \<comment> \<open>the rest of \<^verbatim>\<open>stop\<close>; \<open>fulfilled\<close> is false when the request was rejected\<close>
  "stop_finish silent fulfilled s =
     (let s1 = (if fulfilled then s else emit (ConsoleWarn ''Voice service stop warning'') s);
          s2 = s1\<lparr>active := False, reconnectAttempts := 0\<rparr>
      in if \<not> silent then setUI ''Mic off'' ''idle'' s2 else s2)"

definition openEventStream :: "client \<Rightarrow> client" where
  "openEventStream s =
     (let s1 = (if eventSource s \<noteq> None then emit CloseStream s else s)
      in (emit OpenStream s1)\<lparr>eventSource := Some EventSource\<rparr>)"

definition start_begin :: "client \<Rightarrow> client" where
  "start_begin s =
     (if active s then setUI msgListening ''listening'' s
      else
        let s1 = setUI (''Connecting to microphone'' @ ellipsis) ''calibrating'' s;
            s2 = emit PostStart s1
        in s2\<lparr>startFetches := Suc (startFetches s2)\<rparr>)"

definition start_finish :: "bool \<Rightarrow> client \<Rightarrow> client" where
  \<comment> \<open>\<open>ok\<close> is false when the request was rejected or the response is not \<^verbatim>\<open>ok\<close>\<close>
  "start_finish ok s =
     (if ok then openEventStream (s\<lparr>active := True, reconnectAttempts := 0\<rparr>)
      else
        let s1 = emit (ConsoleError ''Voice service start error'') s;
            s2 = s1\<lparr>active := False\<rparr>
        in setUI ''Voice service unavailable'' ''error'' s2)"

definition toggle :: "client \<Rightarrow> client" where
  "toggle s = (if active s then stop_begin False s else start_begin s)"

definition scheduleReconnect :: "client \<Rightarrow> client" where
  \<comment> \<open>\<^verbatim>\<open>_scheduleReconnect\<close>; its call of \<^verbatim>\<open>stop\<close> is not awaited\<close>
  "scheduleReconnect s =
     (if reconnectTimer s \<noteq> None then s
      else if reconnectAttempts s \<ge> 4 then
        let s1 = emit (ConsoleError ''Voice service reconnection exhausted'') s;
            s2 = stop_begin True s1
        in setUI ''Voice connection lost'' ''error'' s2
      else s\<lparr>reconnectAttempts := reconnectAttempts s + 1, reconnectTimer := Some Timer\<rparr>)"

definition reconnectTimerFired :: "client \<Rightarrow> client" where
  \<comment> \<open>the timer's callback up to its \<^verbatim>\<open>await\<close>\<close>
  "reconnectTimerFired s =
     (let s1 = s\<lparr>reconnectTimer := None\<rparr>;
          s2 = emit PostStart s1
      in s2\<lparr>reconnectFetches := Suc (reconnectFetches s2)\<rparr>)"

definition reconnectSettled :: "bool \<Rightarrow> client \<Rightarrow> client" where
  "reconnectSettled ok s =
     (if ok then setUI msgListening ''listening'' (openEventStream s)
      else scheduleReconnect (emit (ConsoleError ''Voice reconnection failed'') s))"

subsection \<open>Payloads and their handlers\<close>

text \<open>
  A payload object carries the fields of the wire contract, each with the contract's
  type or \<open>None\<close> when the field is absent or \<^verbatim>\<open>null\<close>; the tags are arbitrary
  strings. A field holding a value of another JSON type is outside this model.
  \<open>JArr\<close> is any array: an object to \<^verbatim>\<open>typeof\<close>, with none of the fields.
\<close>

record payload =
  p_type :: "string option"
  p_state :: "string option"
  p_message :: "string option"
  p_level :: "string option"
  p_action :: "string option"
  p_expression :: "string option"
  p_expression_confidence :: "rat option"

datatype json = JNull | JBool bool | JNum rat | JStr string | JArr | JObj payload

text \<open>\<^verbatim>\<open>event.data\<close>: the empty string, a text \<^verbatim>\<open>JSON.parse\<close> throws on, or a value.\<close>

datatype event_data = EmptyData | InvalidJSON | ValidJSON json

definition orDefault :: "string option \<Rightarrow> string \<Rightarrow> string" where
  \<comment> \<open>\<^verbatim>\<open>field || dflt\<close>\<close>
  "orDefault field dflt = (case field of None \<Rightarrow> dflt | Some v \<Rightarrow> if v = [] then dflt else v)"

definition deriveVoiceState :: "string \<Rightarrow> string" where
  "deriveVoiceState rawState =
     (if rawState = ''calibrating'' \<or> rawState = ''listening'' then ''listening''
      else if rawState = ''error'' then ''error''
      else ''idle'')"

definition confidenceOf :: "payload \<Rightarrow> rat" where
  \<comment> \<open>\<^verbatim>\<open>payload.expression_confidence ?? 1\<close>\<close>
  "confidenceOf p = (case p_expression_confidence p of None \<Rightarrow> 1 | Some c \<Rightarrow> c)"

definition handleVoiceResult :: "payload \<Rightarrow> int \<Rightarrow> client \<Rightarrow> client" where
  "handleVoiceResult p now s =
     (if p_action p = Some ''append_expression'' then
        injectVoiceExpression (p_expression p) (confidenceOf p) now s
      else if p_action p = Some ''calculate'' then
        calculate
          (if p_expression p \<noteq> None \<and> p_expression p \<noteq> Some []
           then injectVoiceExpression (p_expression p) (confidenceOf p) now s
           else s)
      else if p_action p = Some ''clear'' then clearAll s
      else if p_action p = Some ''backspace'' then backspace s
      else if p_action p = Some ''stop'' then stop_begin False s
      else s)"

fun handleVoicePayload :: "json \<Rightarrow> int \<Rightarrow> client \<Rightarrow> client" where
  "handleVoicePayload (JObj p) now s =
     (if p_type p = Some ''status'' then
        s\<lparr>voiceUI := voiceUI_set (orDefault (p_message p) msgListening)
                        (deriveVoiceState (orDefault (p_state p) ''idle''))
                        (orDefault (p_level p) ''info'') (voiceUI s)\<rparr>
      else if p_type p = Some ''result'' then
        handleVoiceResult p now (setUI msgListening ''listening'' s)
      else s)"
| "handleVoicePayload JArr now s = s"
| "handleVoicePayload JNull now s = s"
| "handleVoicePayload (JBool b) now s = s"
| "handleVoicePayload (JNum n) now s = s"
| "handleVoicePayload (JStr t) now s = s"

definition onmessage :: "event_data \<Rightarrow> int \<Rightarrow> client \<Rightarrow> client" where
  "onmessage data now s =
     (case data of
        EmptyData \<Rightarrow> s
      | InvalidJSON \<Rightarrow> emit (ConsoleError ''Failed to parse voice payload'') s
      | ValidJSON j \<Rightarrow> handleVoicePayload j now s)"

definition onping :: "client \<Rightarrow> client" where
  "onping s = (if active s then setUI msgListening ''listening'' s else s)"

definition onerror :: "client \<Rightarrow> client" where
  "onerror s =
     (let s1 = emit (ConsoleWarn ''Voice stream encountered an error'') s;
          s2 = (if eventSource s1 \<noteq> None
                then (emit CloseStream s1)\<lparr>eventSource := None\<rparr>
                else s1)
      in if \<not> active s2 then setUI ''Mic off'' ''idle'' s2
         else scheduleReconnect (setUI (''Reconnecting voice link'' @ ellipsis) ''error'' s2))"

subsection \<open>The event loop\<close>

text \<open>
  What can happen to the client, one event at a time. An event that cannot happen in a
  state has no successor: a closed or absent EventSource delivers nothing, a timer fires
  only while it is set, a request settles only while it is in flight.
\<close>

datatype event =
    CallStart
  | StartSettled bool
  | CallStop bool
  | StopSettled bool bool
  | CallToggle
  | StreamMessage event_data int
  | StreamPing
  | StreamError
  | TimerFired
  | ReconnectSettled bool

fun step :: "event \<Rightarrow> client \<Rightarrow> client option" where
  "step CallStart s = Some (start_begin s)"
| "step (StartSettled ok) s =
     (if startFetches s = 0 then None
      else Some (start_finish ok (s\<lparr>startFetches := startFetches s - 1\<rparr>)))"
| "step (CallStop silent) s = Some (stop_begin silent s)"
| "step (StopSettled silent fulfilled) s =
     (if silent \<in> set (stopFetches s)
      then Some (stop_finish silent fulfilled (s\<lparr>stopFetches := remove1 silent (stopFetches s)\<rparr>))
      else None)"
| "step CallToggle s = Some (toggle s)"
| "step (StreamMessage data now) s =
     (if eventSource s = None then None else Some (onmessage data now s))"
| "step StreamPing s = (if eventSource s = None then None else Some (onping s))"
| "step StreamError s = (if eventSource s = None then None else Some (onerror s))"
| "step TimerFired s =
     (if reconnectTimer s = None then None else Some (reconnectTimerFired s))"
| "step (ReconnectSettled ok) s =
     (if reconnectFetches s = 0 then None
      else Some (reconnectSettled ok (s\<lparr>reconnectFetches := reconnectFetches s - 1\<rparr>)))"

fun run :: "event list \<Rightarrow> client \<Rightarrow> client option" where
  "run [] s = Some s"
| "run (e # es) s = (case step e s of None \<Rightarrow> None | Some s' \<Rightarrow> run es s')"

section \<open>safeEvaluate\<close>

text \<open>
  The host's evaluator: it cleans the text, rewrites percentages, refuses a text that
  contains \<^verbatim>\<open>/0\<close>, and only then hands the text to the JavaScript engine. The
  engine is a parameter: \<open>callFunction\<close> is \<^verbatim>\<open>new Function(body)()\<close>, which
  throws or returns a value that is a finite number or not, and \<open>toFixed12\<close> is
  \<^verbatim>\<open>parseFloat(result.toFixed(12))\<close>.
\<close>

datatype js_error = Error string

datatype js_result = Finite rat | NotFinite

record js_engine =
  callFunction :: "string \<Rightarrow> js_error + js_result"
  toFixed12 :: "rat \<Rightarrow> rat"

definition evalChar :: "char \<Rightarrow> bool" where
  \<comment> \<open>a character that \<^verbatim>\<open>[^0-9+\-*/.()%]\<close> does not match\<close>
  "evalChar c = (isDigit c \<or> c = CHR ''+'' \<or> c = CHR ''-'' \<or> c = CHR ''*'' \<or> c = CHR ''/''
      \<or> c = CHR ''.'' \<or> c = CHR ''('' \<or> c = CHR '')'' \<or> c = CHR ''%'')"

fun cleanExpression :: "string \<Rightarrow> string" where
  \<comment> \<open>\<^verbatim>\<open>expression.replace(/[^0-9+\-*/.()%]/g, '')\<close>\<close>
  "cleanExpression [] = []"
| "cleanExpression (c # cs) = (if evalChar c then c # cleanExpression cs else cleanExpression cs)"

text \<open>
  A match of \<^verbatim>\<open>(\d+(?:\.\d+)?)%\<close> at the head of a text: the captured number and
  the text after the percent sign. Both digit runs are greedy, and giving digits back
  never helps, because the character after a shortened run is a digit or the point and
  not the percent sign.
\<close>

definition matchPercent :: "string \<Rightarrow> (string \<times> string) option" where
  "matchPercent t =
     (let d1 = takeWhile isDigit t; r1 = dropWhile isDigit t in
      if d1 = [] then None
      else case r1 of
        [] \<Rightarrow> None
      | c # r2 \<Rightarrow>
          if c = CHR ''%'' then Some (d1, r2)
          else if c = CHR ''.'' then
            (let d2 = takeWhile isDigit r2; r3 = dropWhile isDigit r2 in
             if d2 = [] then None
             else case r3 of
               [] \<Rightarrow> None
             | c' # r4 \<Rightarrow> if c' = CHR ''%'' then Some (d1 @ ''.'' @ d2, r4) else None)
          else None)"

function percentToFraction :: "string \<Rightarrow> string" where
  \<comment> \<open>\<^verbatim>\<open>expr.replace(/(\d+(?:\.\d+)?)%/g, '($1/100)')\<close>\<close>
  "percentToFraction [] = []"
| "percentToFraction (c # cs) =
     (case matchPercent (c # cs) of
        Some (num, rest) \<Rightarrow> ''('' @ num @ ''/100)'' @ percentToFraction rest
      | None \<Rightarrow> c # percentToFraction cs)"
  by pat_completeness auto

termination percentToFraction
proof (relation "measure length")
  show "wf (measure length)" by simp
next
  fix c cs x2 num rest
  assume m: "matchPercent (c # cs) = Some x2" and x2: "(num, rest) = x2"
  have a: "length (dropWhile isDigit u) \<le> length u" for u :: string
    by (rule length_dropWhile_le)
  have "length rest < length (c # cs)"
  proof (cases "dropWhile isDigit (c # cs)")
    case Nil
    with m x2 show ?thesis
      by (simp add: matchPercent_def Let_def split: if_splits)
  next
    case (Cons d r2)
    have r2: "length r2 < length (c # cs)"
      using a [of "c # cs"] Cons by simp
    show ?thesis
    proof (cases "d = CHR ''%''")
      case True
      with m x2 Cons r2 show ?thesis
        by (auto simp: matchPercent_def Let_def split: if_splits)
    next
      case False
      with m x2 Cons obtain d' where r3: "dropWhile isDigit r2 = d' # rest"
        by (auto simp: matchPercent_def Let_def split: if_splits list.splits)
      have "length rest < length r2"
        using a [of r2] r3 by simp
      with r2 show ?thesis by simp
    qed
  qed
  then show "(rest, c # cs) \<in> measure length" by simp
next
  fix c :: char and cs :: string
  show "(cs, c # cs) \<in> measure length" by simp
qed

fun startsWith :: "string \<Rightarrow> string \<Rightarrow> bool" where
  "startsWith t [] = True"
| "startsWith [] (p # ps) = False"
| "startsWith (c # cs) (p # ps) = (c = p \<and> startsWith cs ps)"

fun includes_text :: "string \<Rightarrow> string \<Rightarrow> bool" where
  \<comment> \<open>\<^verbatim>\<open>t.includes(sub)\<close>\<close>
  "includes_text [] sub = (sub = [])"
| "includes_text (c # cs) sub = (startsWith (c # cs) sub \<or> includes_text cs sub)"

definition safeEvaluate_try :: "js_engine \<Rightarrow> string \<Rightarrow> js_error + rat" where
  \<comment> \<open>the body of the \<^verbatim>\<open>try\<close> block\<close>
  "safeEvaluate_try engine expression =
     (let expr = cleanExpression expression;
          expr = percentToFraction expr
      in if includes_text expr ''/0'' then Inl (Error ''Division by zero'')
         else case callFunction engine (''return '' @ expr) of
           Inl thrown \<Rightarrow> Inl thrown
         | Inr NotFinite \<Rightarrow> Inl (Error ''Invalid result'')
         | Inr (Finite r) \<Rightarrow> Inr (toFixed12 engine r))"

definition safeEvaluate :: "js_engine \<Rightarrow> string \<Rightarrow> js_error + rat" where
  "safeEvaluate engine expression =
     (case safeEvaluate_try engine expression of
        Inl e \<Rightarrow> Inl (Error ''Invalid expression'')
      | Inr r \<Rightarrow> Inr r)"

section \<open>Vocabulary of the properties\<close>

text \<open>
  The client after \<^verbatim>\<open>start()\<close> was called on the initial state and its request
  succeeded.
\<close>

definition afterStart :: client where
  "afterStart = initial
     \<lparr>voiceUI := \<lparr>ui_state = ''calibrating'',
                   ui_message = ''Connecting to microphone'' @ ellipsis,
                   ui_text = ''Connecting to microphone'' @ ellipsis\<rparr>,
      active := True, eventSource := Some EventSource,
      effects := [PostStart, OpenStream]\<rparr>"

text \<open>The number of requests to \<^verbatim>\<open>/voice/start\<close> made so far.\<close>

definition postStarts :: "client \<Rightarrow> nat" where
  "postStarts s = length (filter (\<lambda>x. x = PostStart) (effects s))"

text \<open>
  An event that calls \<^verbatim>\<open>start()\<close>: the call itself, and \<^verbatim>\<open>toggle()\<close> on an
  inactive client. A run is free of such calls when none of its events is one in the
  state where it happens.
\<close>

fun invokesStart :: "event \<Rightarrow> client \<Rightarrow> bool" where
  "invokesStart CallStart s = True"
| "invokesStart CallToggle s = (\<not> active s)"
| "invokesStart e s = False"

fun startFree :: "event list \<Rightarrow> client \<Rightarrow> bool" where
  "startFree [] s = True"
| "startFree (e # es) s =
     (\<not> invokesStart e s \<and> (case step e s of None \<Rightarrow> True | Some s' \<Rightarrow> startFree es s'))"

text \<open>
  A client with nothing left that could lead to a reconnect: no stream, no timer, no
  request to \<^verbatim>\<open>/voice/start\<close> in flight.
\<close>

definition dormant :: "client \<Rightarrow> bool" where
  "dormant s = (eventSource s = None \<and> reconnectTimer s = None
      \<and> startFetches s = 0 \<and> reconnectFetches s = 0)"

text \<open>
  A JavaScript engine at the one function body the example of the guard needs: in
  IEEE double arithmetic \<^verbatim>\<open>5/(0.5/100)\<close> is 1000, and \<^verbatim>\<open>(1000).toFixed(12)\<close>
  parses back to 1000.
\<close>

definition exampleEngine :: js_engine where
  "exampleEngine =
     \<lparr>callFunction = (\<lambda>body. if body = ''return 5/(0.5/100)'' then Inr (Finite 1000)
                               else Inl (Error ''outside the example'')),
      toFixed12 = (\<lambda>r. r)\<rparr>"

section \<open>Properties\<close>

subsection \<open>Auxiliary facts\<close>

lemma voiceChar_iff: "voiceChar c \<longleftrightarrow> c \<in> set ''0123456789+-*/().''"
  unfolding voiceChar_def isDigit_def by auto

lemma sanitizeVoice_filter: "sanitizeVoice e = filter voiceChar e"
  by (induction e) simp_all

lemma stop_begin_eq:
  "stop_begin silent s =
     s\<lparr>reconnectTimer := None, eventSource := None,
       effects := effects s @ (if eventSource s \<noteq> None then [CloseStream] else [])
                   @ [PostStop],
       stopFetches := stopFetches s @ [silent]\<rparr>"
proof (cases "reconnectTimer s")
  case None
  then have "s\<lparr>reconnectTimer := None\<rparr> = s" by simp
  with None show ?thesis
    by (cases "eventSource s") (simp_all add: stop_begin_def Let_def emit_def)
next
  case (Some t)
  then show ?thesis
    by (cases "eventSource s") (simp_all add: stop_begin_def Let_def emit_def)
qed

lemma inject_frame:
  "(injectVoiceExpression x c now s)\<lparr>voiceUI := u\<rparr>
     = (injectVoiceExpression x c' now s)\<lparr>voiceUI := u\<rparr>"
  by (simp add: injectVoiceExpression_def Let_def setUI_def split: option.splits)

lemma inject_accept:
  assumes "sanitizeVoice e \<noteq> []"
  shows "injectVoiceExpression (Some e) c now s =
     (if sanitizeVoice e = lastVoiceExpression s \<and> now - lastVoiceTimestamp s < 300 then s
      else s\<lparr>currentExpression := sanitizeVoice e, shouldResetOnNextInput := False,
              lastVoiceExpression := sanitizeVoice e, lastVoiceTimestamp := now,
              voiceUI := (if c < 2 / 5
                          then voiceUI_set ''Low confidence, please repeat'' ''listening''
                                 ''info'' (voiceUI s)
                          else voiceUI s)\<rparr>)"
proof -
  from assms have e: "e \<noteq> []" by auto
  show ?thesis
  proof (cases "shouldResetOnNextInput s")
    case True
    with assms e show ?thesis
      by (simp add: injectVoiceExpression_def Let_def setUI_def)
  next
    case False
    then have "s\<lparr>shouldResetOnNextInput := False\<rparr> = s" by simp
    with False assms e show ?thesis
      by (simp add: injectVoiceExpression_def Let_def setUI_def)
  qed
qed

lemma inject_eq:
  "injectVoiceExpression x c now s =
     (case x of
        None \<Rightarrow> s
      | Some e \<Rightarrow>
          if sanitizeVoice e = []
             \<or> (sanitizeVoice e = lastVoiceExpression s \<and> now - lastVoiceTimestamp s < 300)
          then s
          else s\<lparr>currentExpression := sanitizeVoice e, shouldResetOnNextInput := False,
                  lastVoiceExpression := sanitizeVoice e, lastVoiceTimestamp := now,
                  voiceUI := (if c < 2 / 5
                              then \<lparr>ui_state = ''listening'',
                                    ui_message = ''Low confidence, please repeat'',
                                    ui_text = ''Low confidence, please repeat''\<rparr>
                              else voiceUI s)\<rparr>)"
proof (cases x)
  case None
  then show ?thesis by (simp add: injectVoiceExpression_def)
next
  case (Some e)
  show ?thesis
  proof (cases "sanitizeVoice e = []")
    case True
    with Some show ?thesis by (simp add: injectVoiceExpression_def)
  next
    case False
    from inject_accept [OF False, of c now s] Some False show ?thesis
      by (simp add: voiceUI_set_def)
  qed
qed

lemma inject_of_payload:
  assumes "p_expression p = Some e" and "sanitizeVoice e \<noteq> []"
  shows "injectVoiceExpression (p_expression p) (confidenceOf p) now s =
     (if sanitizeVoice e = lastVoiceExpression s \<and> now - lastVoiceTimestamp s < 300 then s
      else s\<lparr>currentExpression := sanitizeVoice e, shouldResetOnNextInput := False,
              lastVoiceExpression := sanitizeVoice e, lastVoiceTimestamp := now,
              voiceUI := (if (case p_expression_confidence p of None \<Rightarrow> 1 | Some c \<Rightarrow> c) < 2 / 5
                          then \<lparr>ui_state = ''listening'',
                                ui_message = ''Low confidence, please repeat'',
                                ui_text = ''Low confidence, please repeat''\<rparr>
                          else voiceUI s)\<rparr>)"
  using assms by (simp add: inject_eq confidenceOf_def)

lemma calculate_voiceUI:
  "(calculate s)\<lparr>voiceUI := u\<rparr> = calculate (s\<lparr>voiceUI := u\<rparr>)"
  by (simp add: calculate_def emit_def)

lemma handleVoiceResult_frame:
  "(handleVoiceResult (p\<lparr>p_expression_confidence := k\<rparr>) now s)\<lparr>voiceUI := u\<rparr>
     = (handleVoiceResult (p\<lparr>p_expression_confidence := k'\<rparr>) now s)\<lparr>voiceUI := u\<rparr>"
proof -
  let ?c = "confidenceOf (p\<lparr>p_expression_confidence := k\<rparr>)"
  let ?c' = "confidenceOf (p\<lparr>p_expression_confidence := k'\<rparr>)"
  have i: "(injectVoiceExpression (p_expression p) ?c now s)\<lparr>voiceUI := u\<rparr>
         = (injectVoiceExpression (p_expression p) ?c' now s)\<lparr>voiceUI := u\<rparr>"
    by (rule inject_frame)
  then have "(calculate (injectVoiceExpression (p_expression p) ?c now s))\<lparr>voiceUI := u\<rparr>
         = (calculate (injectVoiceExpression (p_expression p) ?c' now s))\<lparr>voiceUI := u\<rparr>"
    by (simp only: calculate_voiceUI)
  with i show ?thesis
    by (simp add: handleVoiceResult_def)
qed

lemma handleVoiceResult_eq:
  "handleVoiceResult p now s =
     (let t = (case p_expression p of
                 None \<Rightarrow> s
               | Some e \<Rightarrow>
                   if sanitizeVoice e = []
                      \<or> (sanitizeVoice e = lastVoiceExpression s
                          \<and> now - lastVoiceTimestamp s < 300)
                   then s
                   else s\<lparr>currentExpression := sanitizeVoice e,
                           shouldResetOnNextInput := False,
                           lastVoiceExpression := sanitizeVoice e, lastVoiceTimestamp := now,
                           voiceUI :=
                             (if (case p_expression_confidence p of None \<Rightarrow> 1 | Some k \<Rightarrow> k)
                                 < 2 / 5
                              then \<lparr>ui_state = ''listening'',
                                    ui_message = ''Low confidence, please repeat'',
                                    ui_text = ''Low confidence, please repeat''\<rparr>
                              else voiceUI s)\<rparr>)
      in if p_action p = Some ''append_expression'' then t
         else if p_action p = Some ''calculate'' then
           (if currentExpression t = [] then t
            else t\<lparr>effects := effects t @ [Calculate (currentExpression t)]\<rparr>)
         else if p_action p = Some ''clear'' then
           s\<lparr>currentExpression := [], shouldResetOnNextInput := False\<rparr>
         else if p_action p = Some ''backspace'' then
           (if currentExpression s = [] then s
            else s\<lparr>currentExpression := butlast (currentExpression s)\<rparr>)
         else if p_action p = Some ''stop'' then
           s\<lparr>reconnectTimer := None, eventSource := None,
             effects := effects s @ (if eventSource s \<noteq> None then [CloseStream] else [])
                         @ [PostStop],
             stopFetches := stopFetches s @ [False]\<rparr>
         else s)"
proof -
  have i: "injectVoiceExpression (p_expression p) (confidenceOf p) now s =
      (case p_expression p of
                 None \<Rightarrow> s
               | Some e \<Rightarrow>
                   if sanitizeVoice e = []
                      \<or> (sanitizeVoice e = lastVoiceExpression s
                          \<and> now - lastVoiceTimestamp s < 300)
                   then s
                   else s\<lparr>currentExpression := sanitizeVoice e,
                           shouldResetOnNextInput := False,
                           lastVoiceExpression := sanitizeVoice e, lastVoiceTimestamp := now,
                           voiceUI :=
                             (if (case p_expression_confidence p of None \<Rightarrow> 1 | Some k \<Rightarrow> k)
                                 < 2 / 5
                              then \<lparr>ui_state = ''listening'',
                                    ui_message = ''Low confidence, please repeat'',
                                    ui_text = ''Low confidence, please repeat''\<rparr>
                              else voiceUI s)\<rparr>)"
    by (simp add: inject_eq confidenceOf_def)
  have skip: "(if p_expression p \<noteq> None \<and> p_expression p \<noteq> Some []
           then injectVoiceExpression (p_expression p) (confidenceOf p) now s else s)
        = injectVoiceExpression (p_expression p) (confidenceOf p) now s"
    by (auto simp: injectVoiceExpression_def)
  show ?thesis
    unfolding handleVoiceResult_def skip i
    by (simp add: Let_def calculate_def emit_def clearAll_def backspace_def stop_begin_eq)
qed

subsection \<open>Deduplication of voice expressions\<close>





subsection \<open>Sanitization\<close>

text \<open>
  C3: whenever \<^verbatim>\<open>injectVoiceExpression\<close> changes anything, the expression the host
  then holds is the sanitized form of the received one, and the sanitized form is the
  received expression with exactly the characters other than the digits, \<^verbatim>\<open>+ - * /\<close>,
  the parentheses and the decimal point removed.
\<close>

theorem C3_only_sanitized_reaches_host:
  "(injectVoiceExpression (Some e) c now s = s
      \<or> currentExpression (injectVoiceExpression (Some e) c now s) = sanitizeVoice e)
   \<and> sanitizeVoice e = filter (\<lambda>ch. ch \<in> set ''0123456789+-*/().'') e"
proof
  show "injectVoiceExpression (Some e) c now s = s
      \<or> currentExpression (injectVoiceExpression (Some e) c now s) = sanitizeVoice e"
    by (simp add: injectVoiceExpression_def Let_def setUI_def)
  have "voiceChar = (\<lambda>ch. ch \<in> set ''0123456789+-*/().'')"
    by (rule ext) (rule voiceChar_iff)
  then show "sanitizeVoice e = filter (\<lambda>ch. ch \<in> set ''0123456789+-*/().'') e"
    by (simp only: sanitizeVoice_filter)
qed

subsection \<open>Confidence\<close>

text \<open>
  C5: a result event is applied whatever its confidence. Two events that differ only in
  their confidence leave every part of the state but the voice status equal.
  \<^verbatim>\<open>injectVoiceExpression\<close> is, for every input, the function that returns the state
  for an absent, empty or repeated expression and otherwise stores the sanitized
  expression, with the voice status set to the request to repeat exactly when the
  confidence is below 0.4 and left alone otherwise. The dispatch on the action is given
  in full: the confidence, an absent one counting as 1, occurs in it only in that choice
  of the voice status. An \<^verbatim>\<open>append_expression\<close> or \<^verbatim>\<open>calculate\<close> event whose
  expression is usable and not a repetition therefore reaches the host with any
  confidence.
\<close>

theorem C5_low_confidence_only_warns:
  "(handleVoiceResult (p\<lparr>p_expression_confidence := k\<rparr>) now s)\<lparr>voiceUI := u\<rparr>
     = (handleVoiceResult (p\<lparr>p_expression_confidence := k'\<rparr>) now s)\<lparr>voiceUI := u\<rparr>
   \<and> injectVoiceExpression x c now s =
     (case x of
        None \<Rightarrow> s
      | Some e \<Rightarrow>
          if sanitizeVoice e = []
             \<or> (sanitizeVoice e = lastVoiceExpression s \<and> now - lastVoiceTimestamp s < 300)
          then s
          else s\<lparr>currentExpression := sanitizeVoice e, shouldResetOnNextInput := False,
                  lastVoiceExpression := sanitizeVoice e, lastVoiceTimestamp := now,
                  voiceUI := (if c < 2 / 5
                              then \<lparr>ui_state = ''listening'',
                                    ui_message = ''Low confidence, please repeat'',
                                    ui_text = ''Low confidence, please repeat''\<rparr>
                              else voiceUI s)\<rparr>)
   \<and> handleVoiceResult p now s =
     (let t = (case p_expression p of
                 None \<Rightarrow> s
               | Some e \<Rightarrow>
                   if sanitizeVoice e = []
                      \<or> (sanitizeVoice e = lastVoiceExpression s
                          \<and> now - lastVoiceTimestamp s < 300)
                   then s
                   else s\<lparr>currentExpression := sanitizeVoice e,
                           shouldResetOnNextInput := False,
                           lastVoiceExpression := sanitizeVoice e, lastVoiceTimestamp := now,
                           voiceUI :=
                             (if (case p_expression_confidence p of None \<Rightarrow> 1 | Some k \<Rightarrow> k)
                                 < 2 / 5
                              then \<lparr>ui_state = ''listening'',
                                    ui_message = ''Low confidence, please repeat'',
                                    ui_text = ''Low confidence, please repeat''\<rparr>
                              else voiceUI s)\<rparr>)
      in if p_action p = Some ''append_expression'' then t
         else if p_action p = Some ''calculate'' then
           (if currentExpression t = [] then t
            else t\<lparr>effects := effects t @ [Calculate (currentExpression t)]\<rparr>)
         else if p_action p = Some ''clear'' then
           s\<lparr>currentExpression := [], shouldResetOnNextInput := False\<rparr>
         else if p_action p = Some ''backspace'' then
           (if currentExpression s = [] then s
            else s\<lparr>currentExpression := butlast (currentExpression s)\<rparr>)
         else if p_action p = Some ''stop'' then
           s\<lparr>reconnectTimer := None, eventSource := None,
             effects := effects s @ (if eventSource s \<noteq> None then [CloseStream] else [])
                         @ [PostStop],
             stopFetches := stopFetches s @ [False]\<rparr>
         else s)
   \<and> ((p_action p = Some ''append_expression'' \<or> p_action p = Some ''calculate'')
       \<and> p_expression p = Some e \<and> sanitizeVoice e \<noteq> []
       \<and> \<not> (sanitizeVoice e = lastVoiceExpression s \<and> now - lastVoiceTimestamp s < 300)
      \<longrightarrow> handleVoiceResult p now s =
            s\<lparr>currentExpression := sanitizeVoice e, shouldResetOnNextInput := False,
              lastVoiceExpression := sanitizeVoice e, lastVoiceTimestamp := now,
              voiceUI :=
                (if (case p_expression_confidence p of None \<Rightarrow> 1 | Some c \<Rightarrow> c) < 2 / 5
                 then \<lparr>ui_state = ''listening'',
                       ui_message = ''Low confidence, please repeat'',
                       ui_text = ''Low confidence, please repeat''\<rparr>
                 else voiceUI s),
              effects := effects s @
                (if p_action p = Some ''calculate'' then [Calculate (sanitizeVoice e)]
                 else [])\<rparr>)"
proof (intro conjI impI)
  show "(handleVoiceResult (p\<lparr>p_expression_confidence := k\<rparr>) now s)\<lparr>voiceUI := u\<rparr>
     = (handleVoiceResult (p\<lparr>p_expression_confidence := k'\<rparr>) now s)\<lparr>voiceUI := u\<rparr>"
    by (rule handleVoiceResult_frame)
  show "injectVoiceExpression x c now s =
     (case x of
        None \<Rightarrow> s
      | Some e \<Rightarrow>
          if sanitizeVoice e = []
             \<or> (sanitizeVoice e = lastVoiceExpression s \<and> now - lastVoiceTimestamp s < 300)
          then s
          else s\<lparr>currentExpression := sanitizeVoice e, shouldResetOnNextInput := False,
                  lastVoiceExpression := sanitizeVoice e, lastVoiceTimestamp := now,
                  voiceUI := (if c < 2 / 5
                              then \<lparr>ui_state = ''listening'',
                                    ui_message = ''Low confidence, please repeat'',
                                    ui_text = ''Low confidence, please repeat''\<rparr>
                              else voiceUI s)\<rparr>)"
    by (rule inject_eq)
  show "handleVoiceResult p now s =
     (let t = (case p_expression p of
                 None \<Rightarrow> s
               | Some e \<Rightarrow>
                   if sanitizeVoice e = []
                      \<or> (sanitizeVoice e = lastVoiceExpression s
                          \<and> now - lastVoiceTimestamp s < 300)
                   then s
                   else s\<lparr>currentExpression := sanitizeVoice e,
                           shouldResetOnNextInput := False,
                           lastVoiceExpression := sanitizeVoice e, lastVoiceTimestamp := now,
                           voiceUI :=
                             (if (case p_expression_confidence p of None \<Rightarrow> 1 | Some k \<Rightarrow> k)
                                 < 2 / 5
                              then \<lparr>ui_state = ''listening'',
                                    ui_message = ''Low confidence, please repeat'',
                                    ui_text = ''Low confidence, please repeat''\<rparr>
                              else voiceUI s)\<rparr>)
      in if p_action p = Some ''append_expression'' then t
         else if p_action p = Some ''calculate'' then
           (if currentExpression t = [] then t
            else t\<lparr>effects := effects t @ [Calculate (currentExpression t)]\<rparr>)
         else if p_action p = Some ''clear'' then
           s\<lparr>currentExpression := [], shouldResetOnNextInput := False\<rparr>
         else if p_action p = Some ''backspace'' then
           (if currentExpression s = [] then s
            else s\<lparr>currentExpression := butlast (currentExpression s)\<rparr>)
         else if p_action p = Some ''stop'' then
           s\<lparr>reconnectTimer := None, eventSource := None,
             effects := effects s @ (if eventSource s \<noteq> None then [CloseStream] else [])
                         @ [PostStop],
             stopFetches := stopFetches s @ [False]\<rparr>
         else s)"
    by (rule handleVoiceResult_eq)
next
  assume h: "(p_action p = Some ''append_expression'' \<or> p_action p = Some ''calculate'')
       \<and> p_expression p = Some e \<and> sanitizeVoice e \<noteq> []
       \<and> \<not> (sanitizeVoice e = lastVoiceExpression s \<and> now - lastVoiceTimestamp s < 300)"
  then have e: "e \<noteq> []" by auto
  from h have pe: "p_expression p = Some e" and ne: "sanitizeVoice e \<noteq> []"
    and nd: "\<not> (sanitizeVoice e = lastVoiceExpression s \<and> now - lastVoiceTimestamp s < 300)"
    by simp_all
  have r: "injectVoiceExpression (p_expression p) (confidenceOf p) now s =
      s\<lparr>currentExpression := sanitizeVoice e, shouldResetOnNextInput := False,
              lastVoiceExpression := sanitizeVoice e, lastVoiceTimestamp := now,
              voiceUI := (if (case p_expression_confidence p of None \<Rightarrow> 1 | Some c \<Rightarrow> c) < 2 / 5
                          then \<lparr>ui_state = ''listening'',
                                ui_message = ''Low confidence, please repeat'',
                                ui_text = ''Low confidence, please repeat''\<rparr>
                          else voiceUI s)\<rparr>"
    unfolding inject_of_payload [OF pe ne] using nd by auto
  show "handleVoiceResult p now s =
            s\<lparr>currentExpression := sanitizeVoice e, shouldResetOnNextInput := False,
              lastVoiceExpression := sanitizeVoice e, lastVoiceTimestamp := now,
              voiceUI :=
                (if (case p_expression_confidence p of None \<Rightarrow> 1 | Some c \<Rightarrow> c) < 2 / 5
                 then \<lparr>ui_state = ''listening'',
                       ui_message = ''Low confidence, please repeat'',
                       ui_text = ''Low confidence, please repeat''\<rparr>
                 else voiceUI s),
              effects := effects s @
                (if p_action p = Some ''calculate'' then [Calculate (sanitizeVoice e)]
                 else [])\<rparr>"
  proof (cases "p_action p = Some ''append_expression''")
    case True
    with h r show ?thesis by (simp add: handleVoiceResult_def)
  next
    case False
    with h have "p_action p = Some ''calculate''" by simp
    with h e r show ?thesis by (simp add: handleVoiceResult_def calculate_def emit_def)
  qed
qed

text \<open>
  The same event with confidence 0.25 and with confidence 0.9: the host receives
  \<^verbatim>\<open>3+4\<close> both times, and the first also asks to repeat.
\<close>

theorem C5_low_confidence_witness:
  "handleVoiceResult
      \<lparr>p_type = Some ''result'', p_state = None, p_message = None, p_level = None,
       p_action = Some ''append_expression'', p_expression = Some ''3 + 4'',
       p_expression_confidence = Some (1 / 4)\<rparr> 1000 initial
     = initial\<lparr>currentExpression := ''3+4'', lastVoiceExpression := ''3+4'',
               lastVoiceTimestamp := 1000,
               voiceUI := \<lparr>ui_state = ''listening'',
                            ui_message = ''Low confidence, please repeat'',
                            ui_text = ''Low confidence, please repeat''\<rparr>\<rparr>
   \<and> handleVoiceResult
      \<lparr>p_type = Some ''result'', p_state = None, p_message = None, p_level = None,
       p_action = Some ''append_expression'', p_expression = Some ''3 + 4'',
       p_expression_confidence = Some (9 / 10)\<rparr> 1000 initial
     = initial\<lparr>currentExpression := ''3+4'', lastVoiceExpression := ''3+4'',
               lastVoiceTimestamp := 1000\<rparr>"
proof -
  have c: "sanitizeVoice ''3 + 4'' = ''3+4''" by (simp add: voiceChar_def isDigit_def)
  show ?thesis
    using
      C5_low_confidence_only_warns [where p = "\<lparr>p_type = Some ''result'', p_state = None, p_message = None,
         p_level = None, p_action = Some ''append_expression'', p_expression = Some ''3 + 4'',
         p_expression_confidence = Some (1 / 4)\<rparr>" and e = "''3 + 4''" and now = 1000
         and s = initial, THEN conjunct2, THEN conjunct2, THEN conjunct2]
      C5_low_confidence_only_warns [where p = "\<lparr>p_type = Some ''result'', p_state = None, p_message = None,
         p_level = None, p_action = Some ''append_expression'', p_expression = Some ''3 + 4'',
         p_expression_confidence = Some (9 / 10)\<rparr>" and e = "''3 + 4''" and now = 1000
         and s = initial, THEN conjunct2, THEN conjunct2, THEN conjunct2]
    by (simp add: initial_def voiceChar_def isDigit_def)
qed

subsection \<open>Expressions that carry nothing\<close>

text \<open>
  C10: when the expression is absent or sanitizes to the empty string,
  \<^verbatim>\<open>injectVoiceExpression\<close> returns the state it was given: the host expression, the
  reset flag, the last accepted expression and its timestamp keep their values, and so
  does everything else.
\<close>

theorem C10_empty_expression_changes_nothing:
  assumes "expression = None \<or> (\<exists>e. expression = Some e \<and> sanitizeVoice e = [])"
  shows "injectVoiceExpression expression c now s = s"
  using assms by (auto simp: injectVoiceExpression_def)

theorem C10_empty_expression_witness:
  "(Some ''what is it?'' = (None :: string option)
      \<or> (\<exists>e. Some ''what is it?'' = Some e \<and> sanitizeVoice e = []))
   \<and> injectVoiceExpression (Some ''what is it?'') 1 1000
        (initial\<lparr>currentExpression := ''7-2'', shouldResetOnNextInput := True\<rparr>)
      = initial\<lparr>currentExpression := ''7-2'', shouldResetOnNextInput := True\<rparr>"
proof -
  have h: "Some ''what is it?'' = (None :: string option)
      \<or> (\<exists>e. Some ''what is it?'' = Some e \<and> sanitizeVoice e = [])"
    by (simp add: voiceChar_def isDigit_def)
  show ?thesis
    by (rule conjI [OF h C10_empty_expression_changes_nothing [OF h]])
qed

subsection \<open>Tags the dispatch does not know\<close>

text \<open>
  C4, as stated, has every unknown tag treated as a malformed payload. What the code
  does with a malformed payload is log it; an event of the unknown type \<^verbatim>\<open>bogus\<close>
  is not logged and changes nothing at all.
\<close>

theorem C4_counterexample:
  "onmessage (ValidJSON (JObj
      \<lparr>p_type = Some ''bogus'', p_state = None, p_message = None, p_level = None,
       p_action = Some ''append_expression'', p_expression = Some ''1+2'',
       p_expression_confidence = Some 1\<rparr>)) 1000 initial = initial
   \<and> ConsoleError ''Failed to parse voice payload'' \<notin> set (effects (onmessage (ValidJSON (JObj
      \<lparr>p_type = Some ''bogus'', p_state = None, p_message = None, p_level = None,
       p_action = Some ''append_expression'', p_expression = Some ''1+2'',
       p_expression_confidence = Some 1\<rparr>)) 1000 initial))
   \<and> ConsoleError ''Failed to parse voice payload''
       \<in> set (effects (onmessage InvalidJSON 1000 initial))"
  by (simp add: onmessage_def initial_def emit_def)

text \<open>
  C4, amended: an event whose type tag is neither \<^verbatim>\<open>status\<close> nor \<^verbatim>\<open>result\<close> is
  silently ignored: the state is unchanged and nothing is logged. A result event whose
  action tag is none of the five known ones only sets the voice status to Listening.
  Neither is treated as a malformed payload.
\<close>

theorem C4_unknown_tags_ignored:
  "(p_type p \<noteq> Some ''status'' \<and> p_type p \<noteq> Some ''result''
      \<longrightarrow> onmessage (ValidJSON (JObj p)) now s = s)
   \<and> (p_type p = Some ''result''
       \<and> p_action p \<noteq> Some ''append_expression'' \<and> p_action p \<noteq> Some ''calculate''
       \<and> p_action p \<noteq> Some ''clear'' \<and> p_action p \<noteq> Some ''backspace''
       \<and> p_action p \<noteq> Some ''stop''
      \<longrightarrow> onmessage (ValidJSON (JObj p)) now s
           = s\<lparr>voiceUI := voiceUI_set msgListening ''listening'' ''info'' (voiceUI s)\<rparr>)"
  by (simp add: onmessage_def handleVoiceResult_def setUI_def)

theorem C4_unknown_tags_witness:
  "onmessage (ValidJSON (JObj
      \<lparr>p_type = Some ''telemetry'', p_state = None, p_message = None, p_level = None,
       p_action = None, p_expression = None, p_expression_confidence = None\<rparr>)) 7 afterStart
     = afterStart
   \<and> onmessage (ValidJSON (JObj
      \<lparr>p_type = Some ''result'', p_state = None, p_message = None, p_level = None,
       p_action = Some ''undo'', p_expression = Some ''1+2'',
       p_expression_confidence = None\<rparr>)) 7 afterStart
     = afterStart\<lparr>voiceUI := voiceUI_set msgListening ''listening'' ''info''
                                 (voiceUI afterStart)\<rparr>"
  using
    C4_unknown_tags_ignored [of
      "\<lparr>p_type = Some ''telemetry'', p_state = None, p_message = None, p_level = None,
        p_action = None, p_expression = None, p_expression_confidence = None\<rparr>" 7 afterStart]
    C4_unknown_tags_ignored [of
      "\<lparr>p_type = Some ''result'', p_state = None, p_message = None, p_level = None,
        p_action = Some ''undo'', p_expression = Some ''1+2'',
        p_expression_confidence = None\<rparr>" 7 afterStart]
  by simp

subsection \<open>Messages that cannot be parsed\<close>

text \<open>
  C6, as stated, has every unparsable message logged. A payload that is not an object,
  here the number 5, is dropped without a word on the console; and so is a message with
  an empty body, which \<^verbatim>\<open>JSON.parse\<close> would refuse but which is never handed to it.
\<close>

theorem C6_counterexample:
  "onmessage (ValidJSON (JNum 5)) 1000 initial = initial
   \<and> ConsoleError ''Failed to parse voice payload''
       \<notin> set (effects (onmessage (ValidJSON (JNum 5)) 1000 initial))
   \<and> onmessage EmptyData 1000 initial = initial
   \<and> ConsoleError ''Failed to parse voice payload''
       \<notin> set (effects (onmessage EmptyData 1000 initial))"
  by (simp add: onmessage_def initial_def)

text \<open>
  C6, amended: a message with an empty body is dropped before it is parsed and is not
  logged; a message whose non-empty body is invalid JSON is logged and dropped, the log
  entry being the only change; a message whose payload is not an object (\<^verbatim>\<open>null\<close>, a
  boolean, a number, a string) is dropped without being logged, and so is an array. In
  every case the stream stays as it is, and so do the connection state and the host
  calculator's state.
\<close>

theorem C6_unparsable_dropped:
  "onmessage EmptyData now s = s
   \<and> onmessage InvalidJSON now s
     = s\<lparr>effects := effects s @ [ConsoleError ''Failed to parse voice payload'']\<rparr>
   \<and> onmessage (ValidJSON JNull) now s = s
   \<and> onmessage (ValidJSON (JBool b)) now s = s
   \<and> onmessage (ValidJSON (JNum n)) now s = s
   \<and> onmessage (ValidJSON (JStr t)) now s = s
   \<and> onmessage (ValidJSON JArr) now s = s"
  by (simp add: onmessage_def emit_def)

subsection \<open>start() on an active client\<close>

lemma afterStart_reached: "run [CallStart, StartSettled True] initial = Some afterStart"
  by (simp add: afterStart_def initial_def start_begin_def start_finish_def openEventStream_def
      setUI_def voiceUI_set_def emit_def Let_def)

text \<open>
  C7: on an active client \<^verbatim>\<open>start()\<close> sets the voice status to Listening and does
  nothing else: no request, no new stream, no request left in flight, and every field of
  the connection state as it was.
\<close>

theorem C7_start_while_active:
  assumes "active s"
  shows "step CallStart s
     = Some (s\<lparr>voiceUI := voiceUI_set msgListening ''listening'' ''info'' (voiceUI s)\<rparr>)"
  using assms by (simp add: start_begin_def setUI_def)

theorem C7_start_while_active_witness:
  "active afterStart
   \<and> step CallStart afterStart
     = Some (afterStart\<lparr>voiceUI := voiceUI_set msgListening ''listening'' ''info''
                                       (voiceUI afterStart)\<rparr>)"
proof -
  have h: "active afterStart" by (simp add: afterStart_def)
  show ?thesis by (rule conjI [OF h C7_start_while_active [OF h]])
qed

subsection \<open>stop()\<close>

text \<open>
  A call of \<^verbatim>\<open>stop\<close> whose request settles before anything else happens takes the
  client from every state to one without timer and stream, inactive, with its counter
  at zero, and idle unless the call is silent.
\<close>

lemma stop_uninterrupted:
  "silent \<notin> set (stopFetches s) \<Longrightarrow>
   run [CallStop silent, StopSettled silent fulfilled] s =
     Some (s\<lparr>reconnectTimer := None, eventSource := None, active := False,
             reconnectAttempts := 0,
             effects := effects s @ (if eventSource s \<noteq> None then [CloseStream] else [])
                         @ [PostStop]
                         @ (if fulfilled then []
                            else [ConsoleWarn ''Voice service stop warning'']),
             voiceUI := (if silent then voiceUI s
                         else \<lparr>ui_state = ''idle'', ui_message = ''Mic off'',
                               ui_text = ''Mic off''\<rparr>)\<rparr>)"
  by (cases silent; cases fulfilled)
    (simp_all add: stop_begin_eq stop_finish_def Let_def emit_def setUI_def voiceUI_set_def
      remove1_append)

text \<open>
  C8 does not hold of the code. \<^verbatim>\<open>stop()\<close> clears the timer and closes the stream
  before it awaits its request, but it does not cancel a reconnect request that is
  already in flight, and that request can settle while \<^verbatim>\<open>stop()\<close> waits. Here the
  client has started, its stream has failed and the reconnect timer has fired; the
  user stops the client; the reconnect request fails and schedules the next attempt;
  then the stop request settles. The call of \<^verbatim>\<open>stop()\<close> is over, and the client
  holds a reconnect timer. When the timer fires and the request succeeds, an inactive
  client with the status Listening holds an open stream, and \<^verbatim>\<open>start()\<close> was never
  called.
\<close>

theorem C8_stop_interrupted_keeps_timer:
  "run [StreamError, TimerFired, CallStop False, ReconnectSettled False,
        StopSettled False True] afterStart
     = Some (afterStart
         \<lparr>voiceUI := \<lparr>ui_state = ''idle'', ui_message = ''Mic off'', ui_text = ''Mic off''\<rparr>,
          active := False, eventSource := None, reconnectTimer := Some Timer,
          effects := [PostStart, OpenStream,
                      ConsoleWarn ''Voice stream encountered an error'', CloseStream,
                      PostStart, PostStop, ConsoleError ''Voice reconnection failed'']\<rparr>)
   \<and> run [StreamError, TimerFired, CallStop False, ReconnectSettled False,
          StopSettled False True, TimerFired, ReconnectSettled True] afterStart
     = Some (afterStart
         \<lparr>voiceUI := \<lparr>ui_state = ''listening'', ui_message = msgListening,
                       ui_text = msgListening\<rparr>,
          active := False, eventSource := Some EventSource,
          effects := [PostStart, OpenStream,
                      ConsoleWarn ''Voice stream encountered an error'', CloseStream,
                      PostStart, PostStop, ConsoleError ''Voice reconnection failed'',
                      PostStart, OpenStream]\<rparr>)
   \<and> startFree [StreamError, TimerFired, CallStop False, ReconnectSettled False,
          StopSettled False True, TimerFired, ReconnectSettled True] afterStart"
  by (simp add: afterStart_def initial_def onerror_def scheduleReconnect_def
      reconnectTimerFired_def reconnectSettled_def openEventStream_def stop_begin_eq
      stop_finish_def Let_def emit_def setUI_def voiceUI_set_def)

subsection \<open>The cap on reconnect attempts\<close>

lemma dormant_step:
  assumes "dormant s" "\<not> invokesStart e s" "step e s = Some s'"
  shows "dormant s' \<and> postStarts s' = postStarts s"
proof (cases e)
  case (CallStop silent)
  with assms show ?thesis
    by (auto simp: dormant_def postStarts_def stop_begin_eq)
next
  case (StopSettled silent f)
  with assms show ?thesis
    by (auto simp: dormant_def postStarts_def stop_finish_def Let_def emit_def setUI_def
        split: if_splits)
next
  case CallToggle
  with assms show ?thesis
    by (auto simp: dormant_def postStarts_def toggle_def stop_begin_eq)
qed (use assms in \<open>auto simp: dormant_def\<close>)

lemma dormant_run:
  "dormant s \<Longrightarrow> startFree evs s \<Longrightarrow> run evs s = Some s'
     \<Longrightarrow> dormant s' \<and> postStarts s' = postStarts s"
proof (induction evs arbitrary: s)
  case Nil
  then show ?case by simp
next
  case (Cons e es)
  from Cons.prems(3) obtain t where t: "step e s = Some t" and r: "run es t = Some s'"
    by (auto split: option.splits)
  from Cons.prems(2) t have ns: "\<not> invokesStart e s" and sf: "startFree es t"
    by auto
  from dormant_step [OF Cons.prems(1) ns t]
  have d: "dormant t" and p: "postStarts t = postStarts s"
    by auto
  from Cons.IH [OF d sf r] p show ?case by simp
qed

lemma exhaust_run:
  assumes "active s" "eventSource s \<noteq> None" "reconnectTimer s = None"
    "reconnectAttempts s = 0"
  shows "run [StreamError, TimerFired, ReconnectSettled False, TimerFired,
              ReconnectSettled False, TimerFired, ReconnectSettled False, TimerFired,
              ReconnectSettled False] s
     = Some (s\<lparr>voiceUI := \<lparr>ui_state = ''error'', ui_message = ''Voice connection lost'',
                            ui_text = ''Voice connection lost''\<rparr>,
              eventSource := None, reconnectAttempts := 4,
              stopFetches := stopFetches s @ [True],
              effects := effects s @
                [ConsoleWarn ''Voice stream encountered an error'', CloseStream,
                 PostStart, ConsoleError ''Voice reconnection failed'',
                 PostStart, ConsoleError ''Voice reconnection failed'',
                 PostStart, ConsoleError ''Voice reconnection failed'',
                 PostStart, ConsoleError ''Voice reconnection failed'',
                 ConsoleError ''Voice service reconnection exhausted'', PostStop]\<rparr>)"
  using assms
  by (simp add: onerror_def scheduleReconnect_def reconnectTimerFired_def reconnectSettled_def
      stop_begin_eq Let_def emit_def setUI_def voiceUI_set_def)

lemma three_failures_run:
  assumes "active s" "eventSource s \<noteq> None" "reconnectTimer s = None"
    "reconnectAttempts s = 0"
  shows "run [StreamError, TimerFired, ReconnectSettled False, TimerFired,
              ReconnectSettled False, TimerFired, ReconnectSettled False] s
     = Some (s\<lparr>voiceUI := \<lparr>ui_state = ''error'',
                            ui_message = ''Reconnecting voice link'' @ ellipsis,
                            ui_text = ''Reconnecting voice link'' @ ellipsis\<rparr>,
              eventSource := None, reconnectTimer := Some Timer, reconnectAttempts := 4,
              effects := effects s @
                [ConsoleWarn ''Voice stream encountered an error'', CloseStream,
                 PostStart, ConsoleError ''Voice reconnection failed'',
                 PostStart, ConsoleError ''Voice reconnection failed'',
                 PostStart, ConsoleError ''Voice reconnection failed'']\<rparr>)"
  using assms
  by (simp add: onerror_def scheduleReconnect_def reconnectTimerFired_def reconnectSettled_def
      Let_def emit_def setUI_def voiceUI_set_def)

text \<open>
  From a counter of zero: take a client that is active with an open stream, the attempt
  counter at zero, no timer set and no request in flight, as \<^verbatim>\<open>start()\<close> leaves it.
  When the stream fails and every reconnect attempt fails, three failed attempts leave
  a fourth one scheduled, and the failure of the fourth ends it: the status is
  \<^verbatim>\<open>error\<close> with the message that the connection is lost, exactly four requests to
  the start endpoint were made, and the last thing done is a request to the stop
  endpoint. When that request settles the client is inactive with its counter at zero,
  the status still \<^verbatim>\<open>error\<close>. From then on no run of events that is free of calls
  of \<^verbatim>\<open>start()\<close> makes another request to the start endpoint, opens a stream or sets
  a timer.
\<close>

lemma cap_from_counter_zero:
  assumes "active s" and "eventSource s \<noteq> None" and "reconnectTimer s = None"
    and "reconnectAttempts s = 0" and "startFetches s = 0" and "reconnectFetches s = 0"
  shows "\<exists>s3 s'.
       run [StreamError, TimerFired, ReconnectSettled False, TimerFired,
            ReconnectSettled False, TimerFired, ReconnectSettled False] s = Some s3
     \<and> reconnectTimer s3 = Some Timer
     \<and> run [TimerFired, ReconnectSettled False] s3 = Some s'
     \<and> ui_state (voiceUI s') = ''error''
     \<and> ui_message (voiceUI s') = ''Voice connection lost''
     \<and> effects s' = effects s @
          [ConsoleWarn ''Voice stream encountered an error'', CloseStream,
           PostStart, ConsoleError ''Voice reconnection failed'',
           PostStart, ConsoleError ''Voice reconnection failed'',
           PostStart, ConsoleError ''Voice reconnection failed'',
           PostStart, ConsoleError ''Voice reconnection failed'',
           ConsoleError ''Voice service reconnection exhausted'', PostStop]
     \<and> postStarts s' = postStarts s + 4
     \<and> (\<forall>fulfilled. \<exists>t. step (StopSettled True fulfilled) s' = Some t
            \<and> \<not> active t \<and> reconnectAttempts t = 0 \<and> ui_state (voiceUI t) = ''error'')
     \<and> (\<forall>evs t. startFree evs s' \<and> run evs s' = Some t
            \<longrightarrow> postStarts t = postStarts s' \<and> eventSource t = None
                \<and> reconnectTimer t = None)"
proof -
  let ?evs3 = "[StreamError, TimerFired, ReconnectSettled False, TimerFired,
            ReconnectSettled False, TimerFired, ReconnectSettled False]"
  obtain s3 where s3: "run ?evs3 s = Some s3" and t3: "reconnectTimer s3 = Some Timer"
    using three_failures_run [OF assms(1-4)] by simp
  obtain s' where all: "run (?evs3 @ [TimerFired, ReconnectSettled False]) s = Some s'"
    and s': "s' = s\<lparr>voiceUI := \<lparr>ui_state = ''error'', ui_message = ''Voice connection lost'',
                            ui_text = ''Voice connection lost''\<rparr>,
              eventSource := None, reconnectAttempts := 4,
              stopFetches := stopFetches s @ [True],
              effects := effects s @
                [ConsoleWarn ''Voice stream encountered an error'', CloseStream,
                 PostStart, ConsoleError ''Voice reconnection failed'',
                 PostStart, ConsoleError ''Voice reconnection failed'',
                 PostStart, ConsoleError ''Voice reconnection failed'',
                 PostStart, ConsoleError ''Voice reconnection failed'',
                 ConsoleError ''Voice service reconnection exhausted'', PostStop]\<rparr>"
    using exhaust_run [OF assms(1-4)] by simp
  have run_append: "run (xs @ ys) u = (case run xs u of None \<Rightarrow> None | Some v \<Rightarrow> run ys v)"
    for xs ys u
    by (induction xs arbitrary: u) (simp_all split: option.splits)
  from all s3 have last2: "run [TimerFired, ReconnectSettled False] s3 = Some s'"
    by (simp only: run_append option.case)
  have d: "dormant s'"
    using assms by (simp add: s' dormant_def)
  have stopped: "\<exists>t. step (StopSettled True fulfilled) s' = Some t
            \<and> \<not> active t \<and> reconnectAttempts t = 0 \<and> ui_state (voiceUI t) = ''error''"
    for fulfilled
    by (cases fulfilled) (simp_all add: s' stop_finish_def emit_def Let_def)
  have quiet: "postStarts t = postStarts s' \<and> eventSource t = None \<and> reconnectTimer t = None"
    if "startFree evs s' \<and> run evs s' = Some t" for evs t
    using dormant_run [OF d, of evs t] that by (simp add: dormant_def)
  have p: "postStarts s' = postStarts s + 4"
    by (simp add: s' postStarts_def)
  from s3 t3 last2 stopped quiet p show ?thesis
    by (intro exI [of _ s3] exI [of _ s']) (simp add: s')
qed

text \<open>
  After the cap, with the client still marked active until its stop request settles:
  the mic button stops it once more, both stop requests settle, and no request to the
  start endpoint has been added to the five made so far.
\<close>

lemma after_cap_example:
  "\<exists>s' t. run [StreamError, TimerFired, ReconnectSettled False, TimerFired,
               ReconnectSettled False, TimerFired, ReconnectSettled False, TimerFired,
               ReconnectSettled False] afterStart = Some s'
     \<and> startFree [CallToggle, StopSettled True True, StopSettled False True] s'
     \<and> run [CallToggle, StopSettled True True, StopSettled False True] s' = Some t
     \<and> postStarts t = 5 \<and> \<not> active t \<and> ui_state (voiceUI t) = ''idle''"
  by (simp add: afterStart_def initial_def onerror_def scheduleReconnect_def
      reconnectTimerFired_def reconnectSettled_def stop_begin_eq stop_finish_def toggle_def
      postStarts_def Let_def emit_def setUI_def voiceUI_set_def)

text \<open>
  C2 does not hold of the code. The attempt counter is set to zero by \<^verbatim>\<open>start()\<close>
  and by \<^verbatim>\<open>stop()\<close> only; the reconnect that succeeds opens the stream as
  \<^verbatim>\<open>start()\<close> does and leaves the counter where it is. So the failures that end the
  session need not be four, and need not be consecutive. After one successful reconnect
  the counter is 1, and the next failure of the stream ends in the terminal state after
  three failed attempts. After four successful reconnects the counter is 4, and the
  fifth failure of the stream ends there at once, with no attempt at all.
\<close>

theorem C2_counter_survives_reconnect:
  "run [StreamError, TimerFired, ReconnectSettled True] afterStart
     = Some (afterStart
         \<lparr>voiceUI := \<lparr>ui_state = ''listening'', ui_message = msgListening,
                       ui_text = msgListening\<rparr>,
          reconnectAttempts := 1,
          effects := [PostStart, OpenStream,
                      ConsoleWarn ''Voice stream encountered an error'', CloseStream,
                      PostStart, OpenStream]\<rparr>)
   \<and> run [StreamError, TimerFired, ReconnectSettled True,
          StreamError, TimerFired, ReconnectSettled False, TimerFired,
          ReconnectSettled False, TimerFired, ReconnectSettled False] afterStart
     = Some (afterStart
         \<lparr>voiceUI := \<lparr>ui_state = ''error'', ui_message = ''Voice connection lost'',
                       ui_text = ''Voice connection lost''\<rparr>,
          eventSource := None, reconnectAttempts := 4, stopFetches := [True],
          effects := [PostStart, OpenStream,
                      ConsoleWarn ''Voice stream encountered an error'', CloseStream,
                      PostStart, OpenStream,
                      ConsoleWarn ''Voice stream encountered an error'', CloseStream,
                      PostStart, ConsoleError ''Voice reconnection failed'',
                      PostStart, ConsoleError ''Voice reconnection failed'',
                      PostStart, ConsoleError ''Voice reconnection failed'',
                      ConsoleError ''Voice service reconnection exhausted'', PostStop]\<rparr>)
   \<and> run [StreamError, TimerFired, ReconnectSettled True,
          StreamError, TimerFired, ReconnectSettled True,
          StreamError, TimerFired, ReconnectSettled True,
          StreamError, TimerFired, ReconnectSettled True, StreamError] afterStart
     = Some (afterStart
         \<lparr>voiceUI := \<lparr>ui_state = ''error'', ui_message = ''Voice connection lost'',
                       ui_text = ''Voice connection lost''\<rparr>,
          eventSource := None, reconnectAttempts := 4, stopFetches := [True],
          effects := [PostStart, OpenStream,
                      ConsoleWarn ''Voice stream encountered an error'', CloseStream,
                      PostStart, OpenStream,
                      ConsoleWarn ''Voice stream encountered an error'', CloseStream,
                      PostStart, OpenStream,
                      ConsoleWarn ''Voice stream encountered an error'', CloseStream,
                      PostStart, OpenStream,
                      ConsoleWarn ''Voice stream encountered an error'', CloseStream,
                      PostStart, OpenStream,
                      ConsoleWarn ''Voice stream encountered an error'', CloseStream,
                      ConsoleError ''Voice service reconnection exhausted'', PostStop]\<rparr>)"
  by (simp add: afterStart_def initial_def onerror_def scheduleReconnect_def
      reconnectTimerFired_def reconnectSettled_def openEventStream_def stop_begin_eq
      Let_def emit_def setUI_def voiceUI_set_def)

subsection \<open>The guard of safeEvaluate\<close>

lemma matchPercent_has_percent:
  assumes "matchPercent t = Some x"
  shows "CHR ''%'' \<in> set t"
proof -
  have sub: "set (dropWhile isDigit u) \<subseteq> set u" for u :: string
    by (auto dest: set_dropWhileD)
  show ?thesis
  proof (cases "dropWhile isDigit t")
    case Nil
    with assms show ?thesis by (simp add: matchPercent_def Let_def split: if_splits)
  next
    case (Cons c r2)
    then have c: "c \<in> set t" and r2: "set r2 \<subseteq> set t"
      using sub [of t] by auto
    show ?thesis
    proof (cases "c = CHR ''%''")
      case True
      with c show ?thesis by simp
    next
      case False
      with assms Cons obtain r4 where "dropWhile isDigit r2 = CHR ''%'' # r4"
        by (auto simp: matchPercent_def Let_def split: if_splits list.splits)
      then have "CHR ''%'' \<in> set r2"
        using sub [of r2] by auto
      with r2 show ?thesis by auto
    qed
  qed
qed

lemma percentToFraction_id:
  "CHR ''%'' \<notin> set t \<Longrightarrow> percentToFraction t = t"
proof (induction t)
  case Nil
  then show ?case by simp
next
  case (Cons c cs)
  have "matchPercent (c # cs) = None"
  proof (rule ccontr)
    assume "matchPercent (c # cs) \<noteq> None"
    then obtain x where "matchPercent (c # cs) = Some x" by auto
    from matchPercent_has_percent [OF this] Cons.prems show False by simp
  qed
  with Cons show ?case by simp
qed

lemma cleanExpression_filter: "cleanExpression e = filter evalChar e"
  by (induction e) simp_all

text \<open>
  C9, as stated, has \<^verbatim>\<open>safeEvaluate\<close> throw whenever the cleaned expression contains
  \<^verbatim>\<open>/0\<close>. The test is made after the percentages have been rewritten, and the
  rewriting can take the \<^verbatim>\<open>/0\<close> away: \<^verbatim>\<open>5/0.5%\<close> is clean as it stands and
  contains \<^verbatim>\<open>/0\<close>, it becomes \<^verbatim>\<open>5/(0.5/100)\<close>, which passes the guard, and the
  call returns 1000.
\<close>

theorem C9_counterexample:
  "cleanExpression ''5/0.5%'' = ''5/0.5%''
   \<and> includes_text (cleanExpression ''5/0.5%'') ''/0''
   \<and> safeEvaluate exampleEngine ''5/0.5%'' = Inr 1000"
  by (simp add: safeEvaluate_def safeEvaluate_try_def exampleEngine_def evalChar_def isDigit_def
        matchPercent_def Let_def)

text \<open>
  C9, amended: \<^verbatim>\<open>safeEvaluate\<close> throws \<^verbatim>\<open>Invalid expression\<close> for every expression
  whose cleaned form, after its percentages have been rewritten to \<^verbatim>\<open>(X/100)\<close>,
  contains \<^verbatim>\<open>/0\<close>, whatever the engine would compute; in particular for every
  expression without a percent sign whose cleaned form contains \<^verbatim>\<open>/0\<close>, such as
  \<^verbatim>\<open>8/0.5\<close>. The guard is a test on the text, not on the value of the divisor.
\<close>

theorem C9_slash_zero_guard:
  "(includes_text (percentToFraction (cleanExpression e)) ''/0''
      \<longrightarrow> safeEvaluate engine e = Inl (Error ''Invalid expression''))
   \<and> (CHR ''%'' \<notin> set e \<and> includes_text (cleanExpression e) ''/0''
      \<longrightarrow> safeEvaluate engine e = Inl (Error ''Invalid expression''))
   \<and> safeEvaluate engine ''8/0.5'' = Inl (Error ''Invalid expression'')"
proof (intro conjI impI)
  show g: "safeEvaluate engine e = Inl (Error ''Invalid expression'')"
    if "includes_text (percentToFraction (cleanExpression e)) ''/0''" for e
    using that by (simp add: safeEvaluate_def safeEvaluate_try_def)
  show "safeEvaluate engine e = Inl (Error ''Invalid expression'')"
    if h: "CHR ''%'' \<notin> set e \<and> includes_text (cleanExpression e) ''/0''"
  proof -
    from h have "CHR ''%'' \<notin> set (cleanExpression e)"
      by (simp add: cleanExpression_filter)
    then have "percentToFraction (cleanExpression e) = cleanExpression e"
      by (rule percentToFraction_id)
    with h show ?thesis by (simp add: g)
  qed
  show "safeEvaluate engine ''8/0.5'' = Inl (Error ''Invalid expression'')"
    by (rule g) (simp add: evalChar_def isDigit_def matchPercent_def Let_def)
qed

theorem C9_slash_zero_guard_witness:
  "CHR ''%'' \<notin> set ''(1+2)/0.25'' \<and> includes_text (cleanExpression ''(1+2)/0.25'') ''/0''
   \<and> safeEvaluate exampleEngine ''(1+2)/0.25'' = Inl (Error ''Invalid expression'')"
proof -
  have h: "CHR ''%'' \<notin> set ''(1+2)/0.25'' \<and> includes_text (cleanExpression ''(1+2)/0.25'') ''/0''"
    by (simp add: evalChar_def isDigit_def)
  from C9_slash_zero_guard [of "''(1+2)/0.25''" exampleEngine] h
  have "safeEvaluate exampleEngine ''(1+2)/0.25'' = Inl (Error ''Invalid expression'')"
    by blast
  with h show ?thesis by blast
qed

end
